theory Spec2Isabelle
  imports Main
begin

section \<open>The role catalogue and the assignment ledger\<close>

text \<open>
  The tables of \<^verbatim>\<open>complete_database_setup.sql\<close> that the two PL/pgSQL functions
  \<^verbatim>\<open>validate_role_assignment\<close> and \<^verbatim>\<open>can_assign_role\<close> read. A row is a record, a
  table is the list of its rows, and a nullable column has an option type, \<open>None\<close> being
  SQL's NULL. A uuid is used as an opaque key, compared for equality only, and is a
  natural number here; a timestamp is a number of microseconds.
\<close>

type_synonym uuid = nat
type_synonym timestamptz = int

text \<open>\<^verbatim>\<open>CREATE TABLE role_categories\<close>\<close>

record role_category =
  rc_id :: uuid
  rc_name :: string
  rc_description :: "string option"
  rc_sort_order :: "int option"

text \<open>
  \<^verbatim>\<open>CREATE TABLE roles\<close>: \<open>name\<close> and \<open>scope_type\<close> are NOT NULL, \<open>category_id\<close>,
  \<open>description\<close>, \<open>permissions\<close> (the jsonb text) and \<open>is_active\<close> are nullable.
\<close>

record role =
  r_id :: uuid
  r_name :: string
  r_scope_type :: string
  r_category_id :: "uuid option"
  r_description :: "string option"
  r_permissions :: "string option"
  r_is_active :: "bool option"

text \<open>
  \<^verbatim>\<open>CREATE TABLE executive_assignments\<close>: \<open>user_id\<close>, \<open>role_id\<close> and \<open>start_date\<close> are
  NOT NULL; \<open>is_active\<close> has a default but no NOT NULL, so it is nullable as well.
\<close>

record executive_assignment =
  ea_id :: uuid
  ea_user_id :: uuid
  ea_role_id :: uuid
  ea_chapter_id :: "uuid option"
  ea_branch_id :: "uuid option"
  ea_start_date :: timestamptz
  ea_end_date :: "timestamptz option"
  ea_is_active :: "bool option"
  ea_appointed_by :: "uuid option"
  ea_notes :: "string option"

record database =
  role_categories :: "role_category list"
  roles :: "role list"
  executive_assignments :: "executive_assignment list"

subsection \<open>Constraints of the schema\<close>

text \<open>\<^verbatim>\<open>CONSTRAINT valid_scope CHECK (...)\<close> of \<open>executive_assignments\<close>, disjunct by disjunct.\<close>

definition sql_is_null :: "'a option \<Rightarrow> bool" where
  "sql_is_null x = (case x of None \<Rightarrow> True | Some _ \<Rightarrow> False)"

definition sql_is_not_null :: "'a option \<Rightarrow> bool" where
  "sql_is_not_null x = (case x of None \<Rightarrow> False | Some _ \<Rightarrow> True)"

definition valid_scope :: "executive_assignment \<Rightarrow> bool" where
  "valid_scope ea =
     ((sql_is_not_null (ea_chapter_id ea) \<and> sql_is_null (ea_branch_id ea)) \<or>
      (sql_is_null (ea_chapter_id ea) \<and> sql_is_not_null (ea_branch_id ea)) \<or>
      (sql_is_not_null (ea_chapter_id ea) \<and> sql_is_not_null (ea_branch_id ea)))"

text \<open>\<^verbatim>\<open>scope_type text NOT NULL CHECK (scope_type IN ('chapter', 'branch', 'both'))\<close>\<close>

definition roles_scope_type_check :: "role \<Rightarrow> bool" where
  "roles_scope_type_check r = (r_scope_type r \<in> set [''chapter'', ''branch'', ''both''])"

text \<open>\<^verbatim>\<open>id uuid PRIMARY KEY\<close> of \<open>roles\<close>: no two rows share an id.\<close>

definition roles_pkey :: "database \<Rightarrow> bool" where
  "roles_pkey db = distinct (map r_id (roles db))"

subsection \<open>SQL's three-valued conditions\<close>

text \<open>
  A condition of SQL is true, false or NULL (\<open>None\<close>). A comparison with NULL is NULL,
  \<open>AND\<close> is Kleene's conjunction, and both a \<^verbatim>\<open>WHERE\<close> clause and a PL/pgSQL \<^verbatim>\<open>IF\<close>
  take their branch only when the condition is true.
\<close>

type_synonym sql_bool = "bool option"

definition sql_eq :: "'a option \<Rightarrow> 'a option \<Rightarrow> sql_bool" where
  "sql_eq x y = (case x of None \<Rightarrow> None
                 | Some a \<Rightarrow> (case y of None \<Rightarrow> None | Some b \<Rightarrow> Some (a = b)))"

fun sql_and :: "sql_bool \<Rightarrow> sql_bool \<Rightarrow> sql_bool" where
  "sql_and (Some False) _ = Some False"
| "sql_and _ (Some False) = Some False"
| "sql_and (Some True) (Some True) = Some True"
| "sql_and _ _ = None"

definition sql_in :: "'a option \<Rightarrow> 'a list \<Rightarrow> sql_bool" where
  "sql_in x vs = (case x of None \<Rightarrow> None | Some a \<Rightarrow> Some (a \<in> set vs))"

definition is_true :: "sql_bool \<Rightarrow> bool" where
  "is_true b = (case b of Some True \<Rightarrow> True | _ \<Rightarrow> False)"

text \<open>
  \<^verbatim>\<open>LIKE\<close>: \<open>%\<close> in the pattern stands for any run of characters, \<open>_\<close> for any one
  character, every other character for itself. (The escape character is not modelled:
  the only pattern of the source, \<^verbatim>\<open>'%Committee%'\<close>, has none.)
\<close>

fun like_match :: "string \<Rightarrow> string \<Rightarrow> bool" where
  "like_match [] s = (case s of [] \<Rightarrow> True | _ # _ \<Rightarrow> False)"
| "like_match (p # ps) [] = (if p = CHR ''%'' then like_match ps [] else False)"
| "like_match (p # ps) (c # cs) =
     (if p = CHR ''%'' then (if like_match ps (c # cs) then True else like_match (p # ps) cs)
      else if p = CHR ''_'' then like_match ps cs
      else if p = c then like_match ps cs
      else False)"

definition sql_like :: "string option \<Rightarrow> string \<Rightarrow> sql_bool" where
  "sql_like x pat = (case x of None \<Rightarrow> None | Some s \<Rightarrow> Some (like_match pat s))"

section \<open>validate_role_assignment\<close>

text \<open>
  \<^verbatim>\<open>SELECT r.*, rc.name as category_name INTO role_record FROM roles r
  JOIN role_categories rc ON r.category_id = rc.id WHERE r.id = p_role_id\<close>:
  the rows of the inner join, of which \<^verbatim>\<open>SELECT INTO\<close> keeps the first; \<open>None\<close> is
  \<^verbatim>\<open>NOT FOUND\<close>.
\<close>

definition role_with_category_rows :: "database \<Rightarrow> uuid option \<Rightarrow> (role \<times> string) list" where
  "role_with_category_rows db p_role_id =
     concat (map (\<lambda>r. concat (map (\<lambda>rc.
       if is_true (sql_and (sql_eq (r_category_id r) (Some (rc_id rc)))
                           (sql_eq (Some (r_id r)) p_role_id))
       then [(r, rc_name rc)] else []) (role_categories db))) (roles db))"

definition select_into :: "'a list \<Rightarrow> 'a option" where
  "select_into rows = (case rows of [] \<Rightarrow> None | x # _ \<Rightarrow> Some x)"

text \<open>A \<^verbatim>\<open>CASE\<close> statement of PL/pgSQL with no \<^verbatim>\<open>ELSE\<close> raises when no branch matches.\<close>

datatype plpgsql_error = Case_Not_Found

definition validate_role_assignment ::
  "database \<Rightarrow> uuid option \<Rightarrow> uuid option \<Rightarrow> uuid option \<Rightarrow> uuid option
     \<Rightarrow> plpgsql_error + bool" where
  "validate_role_assignment db p_user_id p_role_id p_chapter_id p_branch_id =
     (case select_into (role_with_category_rows db p_role_id) of
        None \<Rightarrow> Inr False
      | Some (role_record, category_name) \<Rightarrow>
          (let user_current_roles = length (filter (\<lambda>ea.
                 is_true (sql_and (sql_eq (Some (ea_user_id ea)) p_user_id)
                                  (sql_eq (ea_is_active ea) (Some True))))
                 (executive_assignments db))
           in if r_scope_type role_record = ''chapter'' then
                Inr (sql_is_not_null p_chapter_id)
              else if r_scope_type role_record = ''branch'' then
                Inr (sql_is_not_null p_branch_id)
              else if r_scope_type role_record = ''both'' then
                Inr (if sql_is_not_null p_chapter_id then True
                     else sql_is_not_null p_branch_id)
              else Inl Case_Not_Found))"

section \<open>can_assign_role\<close>

text \<open>
  \<^verbatim>\<open>SELECT * INTO role_details FROM roles WHERE id = role_id\<close>. When no row is found the
  record variable is all NULL: \<open>None\<close> here, and a field of it is read with
  \<open>map_option\<close>.
\<close>

definition role_details_of :: "database \<Rightarrow> uuid option \<Rightarrow> role option" where
  "role_details_of db role_id =
     select_into (filter (\<lambda>r. is_true (sql_eq (Some (r_id r)) role_id)) (roles db))"

text \<open>
  The query of the \<^verbatim>\<open>FOR\<close> loop:
  \<^verbatim>\<open>SELECT r.*, ea.chapter_id, ea.branch_id FROM executive_assignments ea
  JOIN roles r ON ea.role_id = r.id
  WHERE ea.user_id = assigner_user_id AND ea.is_active = true\<close>.
  Neither \<open>start_date\<close> nor \<open>end_date\<close> occurs in it.
\<close>

definition assigner_rows ::
  "database \<Rightarrow> uuid option \<Rightarrow> (role \<times> executive_assignment) list" where
  "assigner_rows db assigner_user_id =
     concat (map (\<lambda>ea. concat (map (\<lambda>r.
       if is_true (sql_and (sql_eq (Some (ea_role_id ea)) (Some (r_id r)))
                  (sql_and (sql_eq (Some (ea_user_id ea)) assigner_user_id)
                           (sql_eq (ea_is_active ea) (Some True))))
       then [(r, ea)] else []) (roles db))) (executive_assignments db))"

text \<open>The three \<^verbatim>\<open>IF\<close> conditions of the loop body, in the source's order.\<close>

definition chairman_rule :: "role \<Rightarrow> bool" where
  "chairman_rule assigner_role = is_true (sql_eq (Some (r_name assigner_role)) (Some ''Chairman''))"

definition secretary_rule :: "role \<Rightarrow> role option \<Rightarrow> bool" where
  "secretary_rule assigner_role role_details =
     is_true (sql_and (sql_eq (Some (r_name assigner_role)) (Some ''Secretary''))
                      (sql_like (map_option r_name role_details) ''%Committee%''))"

definition branch_chairman_rule ::
  "role \<Rightarrow> executive_assignment \<Rightarrow> role option \<Rightarrow> uuid option \<Rightarrow> bool" where
  "branch_chairman_rule assigner_role ea role_details target_branch_id =
     is_true (sql_and
               (sql_and (sql_eq (Some (r_name assigner_role)) (Some ''Branch Chairman''))
                        (sql_in (map_option r_scope_type role_details) [''branch'', ''both'']))
               (sql_eq (ea_branch_id ea) target_branch_id))"

fun assigner_loop ::
  "role option \<Rightarrow> uuid option \<Rightarrow> (role \<times> executive_assignment) list \<Rightarrow> bool" where
  "assigner_loop role_details target_branch_id [] = False"
| "assigner_loop role_details target_branch_id ((assigner_role, ea) # rest) =
     (if chairman_rule assigner_role then True
      else if secretary_rule assigner_role role_details then True
      else if branch_chairman_rule assigner_role ea role_details target_branch_id then True
      else assigner_loop role_details target_branch_id rest)"

definition can_assign_role ::
  "database \<Rightarrow> uuid option \<Rightarrow> uuid option \<Rightarrow> uuid option \<Rightarrow> uuid option \<Rightarrow> uuid option
     \<Rightarrow> bool" where
  "can_assign_role db assigner_user_id target_user_id role_id target_chapter_id target_branch_id =
     (let role_details = role_details_of db role_id
      in assigner_loop role_details target_branch_id (assigner_rows db assigner_user_id))"

section \<open>Revocation\<close>

text \<open>
  Modelled from the spec: the \<open>revoke\<close> operation of the Assignment Ledger, whose code
  is not among the sources (the schema and the two functions above are). The spec has it
  set \<open>end_date = now\<close> and \<open>is_active = false\<close> on the assignment with the given id;
  no row is deleted.
\<close>

definition revoke :: "timestamptz \<Rightarrow> uuid \<Rightarrow> database \<Rightarrow> database" where
  "revoke now assignment_id db =
     db\<lparr>executive_assignments := map (\<lambda>ea.
        if ea_id ea = assignment_id
        then ea\<lparr>ea_end_date := Some now, ea_is_active := Some False\<rparr>
        else ea) (executive_assignments db)\<rparr>"

section \<open>Notions in the specification's own words\<close>

text \<open>
  The specification calls an assignment currently effective iff \<open>is_active = true\<close> and
  (\<open>end_date\<close> is null or in the future) and \<open>start_date \<le> now\<close>. This predicate is
  that sentence; no function of the source computes it.
\<close>

definition spec_currently_effective :: "timestamptz \<Rightarrow> executive_assignment \<Rightarrow> bool" where
  "spec_currently_effective now ea =
     (ea_is_active ea = Some True
      \<and> (case ea_end_date ea of None \<Rightarrow> True | Some e \<Rightarrow> now < e)
      \<and> ea_start_date ea \<le> now)"

text \<open>
  The specification's \<open>listEffective(userId)\<close>: all currently effective assignments of
  a user. An actor holds zero effective assignments when this list is empty.
\<close>

definition spec_list_effective ::
  "timestamptz \<Rightarrow> uuid \<Rightarrow> database \<Rightarrow> executive_assignment list" where
  "spec_list_effective now user_id db =
     filter (\<lambda>ea. ea_user_id ea = user_id \<and> spec_currently_effective now ea)
       (executive_assignments db)"

text \<open>
  In the data model a Role belongs to a RoleCategory through its \<open>category_id\<close>, and the
  committee category is the row of \<open>role_categories\<close> named \<^verbatim>\<open>Committees\<close>. This
  predicate is that reading; \<open>can_assign_role\<close> never reads \<open>category_id\<close>.
\<close>

definition spec_in_committee_category :: "database \<Rightarrow> role \<Rightarrow> bool" where
  "spec_in_committee_category db r =
     list_ex (\<lambda>rc. rc_name rc = ''Committees'' \<and> r_category_id r = Some (rc_id rc))
       (role_categories db)"

section \<open>A small database\<close>

text \<open>
  The four seeded categories, some of the seeded roles (with the seed's names, scope types
  and categories), three roles that the seed does not have, and five assignments. The
  theorems below are instantiated on it.
\<close>

definition mk_role :: "uuid \<Rightarrow> string \<Rightarrow> string \<Rightarrow> uuid option \<Rightarrow> role" where
  "mk_role i n s c = \<lparr>r_id = i, r_name = n, r_scope_type = s, r_category_id = c,
     r_description = None, r_permissions = Some ''{}'', r_is_active = Some True\<rparr>"

definition mk_assignment ::
  "uuid \<Rightarrow> uuid \<Rightarrow> uuid \<Rightarrow> uuid option \<Rightarrow> uuid option \<Rightarrow> timestamptz option \<Rightarrow> bool option
     \<Rightarrow> executive_assignment" where
  "mk_assignment i u r c b e a = \<lparr>ea_id = i, ea_user_id = u, ea_role_id = r,
     ea_chapter_id = c, ea_branch_id = b, ea_start_date = 0, ea_end_date = e,
     ea_is_active = a, ea_appointed_by = None, ea_notes = None\<rparr>"

definition chairman :: role where
  "chairman = mk_role 1 ''Chairman'' ''chapter'' (Some 1)"

definition secretary :: role where
  "secretary = mk_role 3 ''Secretary'' ''chapter'' (Some 1)"

definition branch_chairman :: role where
  "branch_chairman = mk_role 16 ''Branch Chairman'' ''branch'' (Some 2)"

definition branch_secretary :: role where
  "branch_secretary = mk_role 17 ''Branch Secretary'' ''branch'' (Some 2)"

definition finance_committee_chair :: role where
  "finance_committee_chair = mk_role 25 ''Finance Committee Chair'' ''chapter'' (Some 3)"

definition electoral_commissioner :: role where
  "electoral_commissioner = mk_role 41 ''Electoral Commissioner'' ''both'' (Some 4)"

text \<open>Not seeded: a role of the Committees category whose name lacks the word.\<close>

definition fundraising_lead :: role where
  "fundraising_lead = mk_role 50 ''Fundraising Lead'' ''chapter'' (Some 3)"

text \<open>Not seeded: a chapter executive whose name has the word.\<close>

definition committee_liaison_officer :: role where
  "committee_liaison_officer = mk_role 51 ''Committee Liaison Officer'' ''chapter'' (Some 1)"

text \<open>Not seeded: a role with no category (\<open>category_id\<close> is nullable).\<close>

definition patron :: role where
  "patron = mk_role 52 ''Patron'' ''chapter'' None"

text \<open>
  User 7 chairs the chapter with \<open>is_active = true\<close> and an \<open>end_date\<close> of 50; user 8
  is Secretary; user 9 is Branch Chairman of branch 100; user 10's chairmanship has
  \<open>is_active = false\<close>; user 11 chairs the chapter with no \<open>end_date\<close>.
\<close>

definition expired_chairmanship :: executive_assignment where
  "expired_chairmanship = mk_assignment 1 7 1 (Some 1) None (Some 50) (Some True)"

definition secretaryship :: executive_assignment where
  "secretaryship = mk_assignment 2 8 3 (Some 1) None None (Some True)"

definition branch_chairmanship :: executive_assignment where
  "branch_chairmanship = mk_assignment 3 9 16 None (Some 100) None (Some True)"

definition inactive_chairmanship :: executive_assignment where
  "inactive_chairmanship = mk_assignment 4 10 1 (Some 1) None (Some 60) (Some False)"

definition open_chairmanship :: executive_assignment where
  "open_chairmanship = mk_assignment 5 11 1 (Some 1) None None (Some True)"

definition example_db :: database where
  "example_db = \<lparr>
     role_categories =
       [\<lparr>rc_id = 1, rc_name = ''Chapter Executives'', rc_description = None,
          rc_sort_order = Some 1\<rparr>,
        \<lparr>rc_id = 2, rc_name = ''Branch Executives'', rc_description = None,
          rc_sort_order = Some 2\<rparr>,
        \<lparr>rc_id = 3, rc_name = ''Committees'', rc_description = None,
          rc_sort_order = Some 3\<rparr>,
        \<lparr>rc_id = 4, rc_name = ''Special Roles'', rc_description = None,
          rc_sort_order = Some 4\<rparr>],
     roles =
       [chairman, secretary, branch_chairman, branch_secretary, finance_committee_chair,
        electoral_commissioner, fundraising_lead, committee_liaison_officer, patron],
     executive_assignments =
       [expired_chairmanship, secretaryship, branch_chairmanship, inactive_chairmanship,
        open_chairmanship]\<rparr>"

text \<open>The same catalogue with the chairmanship of user 7 as the only assignment.\<close>

definition expired_db :: database where
  "expired_db = example_db\<lparr>executive_assignments := [expired_chairmanship]\<rparr>"

text \<open>
  The same catalogue where user 9 is Branch Chairman of branch 100 and also has a
  chairmanship of the chapter with \<open>is_active = true\<close> and an \<open>end_date\<close> of 50.
\<close>

definition lapsed_chairmanship :: executive_assignment where
  "lapsed_chairmanship = mk_assignment 6 9 1 (Some 1) None (Some 50) (Some True)"

definition lapsed_db :: database where
  "lapsed_db = example_db\<lparr>executive_assignments :=
     [branch_chairmanship, lapsed_chairmanship]\<rparr>"

section \<open>Reading the conditions\<close>

lemmas example_defs = example_db_def expired_db_def mk_role_def mk_assignment_def
  chairman_def secretary_def branch_chairman_def branch_secretary_def
  finance_committee_chair_def electoral_commissioner_def fundraising_lead_def
  committee_liaison_officer_def patron_def expired_chairmanship_def secretaryship_def
  branch_chairmanship_def inactive_chairmanship_def open_chairmanship_def
  lapsed_chairmanship_def lapsed_db_def

lemmas can_assign_role_eval = can_assign_role_def assigner_rows_def role_details_of_def
  select_into_def chairman_rule_def secretary_rule_def branch_chairman_rule_def
  sql_eq_def sql_in_def sql_like_def

lemmas validate_eval = validate_role_assignment_def role_with_category_rows_def
  select_into_def sql_eq_def

lemma is_true_Some [simp]: "is_true (Some b) = b" "is_true None = False"
  by (cases b; simp add: is_true_def)+

lemma is_true_sql_and [simp]: "is_true (sql_and x y) = (is_true x \<and> is_true y)"
  by (induction x y rule: sql_and.induct) (simp_all add: is_true_def)

lemma is_true_sql_eq_Some [simp]:
  "is_true (sql_eq (Some a) y) = (y = Some a)"
  "is_true (sql_eq x (Some b)) = (x = Some b)"
  by (auto simp: sql_eq_def split: option.splits)

lemma is_true_sql_eq: "is_true (sql_eq x y) = (\<exists>a. x = Some a \<and> y = Some a)"
  by (auto simp: sql_eq_def split: option.splits)

lemma is_true_sql_in: "is_true (sql_in x vs) = (\<exists>a. x = Some a \<and> a \<in> set vs)"
  by (auto simp: sql_in_def split: option.splits)

lemma is_true_sql_like: "is_true (sql_like x pat) = (\<exists>s. x = Some s \<and> like_match pat s)"
  by (auto simp: sql_like_def split: option.splits)

lemma sql_is_not_null_iff [simp]: "sql_is_not_null x = (x \<noteq> None)"
  by (cases x) (simp_all add: sql_is_not_null_def)

lemma sql_is_null_iff [simp]: "sql_is_null x = (x = None)"
  by (cases x) (simp_all add: sql_is_null_def)

subsection \<open>LIKE '%Committee%' is "contains Committee"\<close>

lemma like_match_Nil [simp]: "like_match [] s = (s = [])"
  by (cases s) simp_all

lemma like_match_any: "like_match ''%'' s"
  by (induction s) simp_all

lemma like_match_percent:
  "like_match (CHR ''%'' # ps) s = (\<exists>u v. s = u @ v \<and> like_match ps v)"
proof (induction s)
  case Nil
  then show ?case by simp
next
  case (Cons c cs)
  have "(\<exists>u v. c # cs = u @ v \<and> like_match ps v) =
        (like_match ps (c # cs) \<or> (\<exists>u v. cs = u @ v \<and> like_match ps v))"
    by (auto simp: Cons_eq_append_conv)
  with Cons show ?case by auto
qed

lemma like_match_literal:
  assumes "CHR ''%'' \<notin> set lit" and "CHR ''_'' \<notin> set lit"
  shows "like_match (lit @ ps) s = (\<exists>v. s = lit @ v \<and> like_match ps v)"
  using assms
proof (induction lit arbitrary: s)
  case Nil
  then show ?case by simp
next
  case (Cons a lit)
  then show ?case by (cases s) auto
qed

lemma like_match_contains:
  assumes "CHR ''%'' \<notin> set lit" and "CHR ''_'' \<notin> set lit"
  shows "like_match (CHR ''%'' # lit @ ''%'') s = (\<exists>u v. s = u @ lit @ v)"
proof -
  have "like_match (CHR ''%'' # lit @ ''%'') s =
        (\<exists>u w. s = u @ w \<and> like_match (lit @ ''%'') w)"
    by (rule like_match_percent)
  also have "\<dots> = (\<exists>u w. s = u @ w \<and> (\<exists>v. w = lit @ v))"
    by (simp only: like_match_literal [OF assms] like_match_any simp_thms)
  also have "\<dots> = (\<exists>u v. s = u @ lit @ v)"
    by blast
  finally show ?thesis .
qed

lemma like_committee:
  "like_match ''%Committee%'' s = (\<exists>u v. s = u @ ''Committee'' @ v)"
  using like_match_contains [of "''Committee''" s] by simp

subsection \<open>The loop grants iff some loaded row grants\<close>

lemma assigner_loop_iff:
  "assigner_loop role_details target_branch_id rows =
     (\<exists>(r, ea) \<in> set rows. chairman_rule r \<or> secretary_rule r role_details
        \<or> branch_chairman_rule r ea role_details target_branch_id)"
  by (induction role_details target_branch_id rows rule: assigner_loop.induct) auto

lemma set_assigner_rows:
  "set (assigner_rows db assigner) =
     {(r, ea). ea \<in> set (executive_assignments db) \<and> r \<in> set (roles db)
        \<and> r_id r = ea_role_id ea \<and> assigner = Some (ea_user_id ea)
        \<and> ea_is_active ea = Some True}"
  by (auto simp: assigner_rows_def)

lemma can_assign_role_iff:
  "can_assign_role db assigner target_user role_id target_chapter target_branch =
     (\<exists>ea \<in> set (executive_assignments db). \<exists>r \<in> set (roles db).
        r_id r = ea_role_id ea \<and> assigner = Some (ea_user_id ea)
        \<and> ea_is_active ea = Some True
        \<and> (chairman_rule r \<or> secretary_rule r (role_details_of db role_id)
             \<or> branch_chairman_rule r ea (role_details_of db role_id) target_branch))"
  by (auto simp: can_assign_role_def Let_def assigner_loop_iff set_assigner_rows)

subsection \<open>The role that validate_role_assignment finds\<close>

lemma select_into_Some: "select_into rows = Some y \<Longrightarrow> y \<in> set rows"
  by (auto simp: select_into_def split: list.splits)

lemma role_with_category_rows_mem:
  "(x, n) \<in> set (role_with_category_rows db p) \<longleftrightarrow>
     x \<in> set (roles db) \<and> p = Some (r_id x) \<and>
     (\<exists>rc \<in> set (role_categories db). r_category_id x = Some (rc_id rc) \<and> n = rc_name rc)"
  by (auto simp: role_with_category_rows_def)

lemma roles_pkey_unique:
  assumes "roles_pkey db" and "r \<in> set (roles db)" and "x \<in> set (roles db)"
    and "r_id x = r_id r"
  shows "x = r"
proof -
  from assms(1) have "inj_on r_id (set (roles db))"
    by (simp add: roles_pkey_def distinct_map)
  with assms(2-4) show ?thesis
    by (auto dest: inj_onD)
qed

lemma role_record_is_the_role:
  assumes "roles_pkey db" and "r \<in> set (roles db)"
    and "select_into (role_with_category_rows db (Some (r_id r))) = Some (x, n)"
  shows "x = r \<and> r_category_id r \<noteq> None"
proof -
  from assms(3) have "(x, n) \<in> set (role_with_category_rows db (Some (r_id r)))"
    by (rule select_into_Some)
  then have mem: "x \<in> set (roles db)" and ident: "r_id x = r_id r"
    and cat: "r_category_id x \<noteq> None"
    by (auto simp: role_with_category_rows_mem)
  from assms(1,2) mem ident have "x = r"
    by (rule roles_pkey_unique)
  with cat show ?thesis by simp
qed

lemma example_db_pkey: "roles_pkey example_db"
  by (simp add: roles_pkey_def example_defs)

text \<open>
  Under the \<open>scope_type\<close> check of \<open>roles\<close> the \<^verbatim>\<open>CASE\<close> always finds a branch:
  \<open>validate_role_assignment\<close> returns a boolean and never raises.
\<close>

lemma validate_role_assignment_returns:
  assumes "\<forall>r \<in> set (roles db). roles_scope_type_check r"
  shows "\<exists>b. validate_role_assignment db user role_id chapter branch = Inr b"
proof (cases "select_into (role_with_category_rows db role_id)")
  case None
  then have "validate_role_assignment db user role_id chapter branch = Inr False"
    by (simp add: validate_role_assignment_def)
  then show ?thesis ..
next
  case (Some row)
  obtain x n where row: "row = (x, n)" by (cases row)
  with Some have "(x, n) \<in> set (role_with_category_rows db role_id)"
    by (auto dest: select_into_Some)
  then have "x \<in> set (roles db)"
    by (simp add: role_with_category_rows_mem)
  with assms have "roles_scope_type_check x" by blast
  with Some row show ?thesis
    by (auto simp: validate_role_assignment_def Let_def roles_scope_type_check_def)
qed

section \<open>Properties of can_assign_role\<close>

text \<open>
  C9. The answer of \<open>can_assign_role\<close> does not depend on the target user: with the
  same database, assigner, role and target scope, any two target users get the same
  answer; in particular the assigner themselves as target gets the answer anybody gets.
\<close>

theorem can_assign_role_target_user_irrelevant:
  "can_assign_role db assigner t1 role_id target_chapter_id target_branch_id =
   can_assign_role db assigner t2 role_id target_chapter_id target_branch_id"
  by (simp add: can_assign_role_def)

text \<open>
  C3, as written, fails for an actor with zero effective assignments in the
  specification's sense. In \<open>expired_db\<close> at time 100 the list of user 7's currently
  effective assignments is empty (the one chairmanship ended at 50), yet the row has
  \<open>is_active = true\<close>, is loaded, and user 7 is allowed.
\<close>

theorem no_effective_assignment_yet_allowed:
  "spec_list_effective 100 7 expired_db = [] \<and>
   can_assign_role expired_db (Some 7) (Some 20) (Some 17) None (Some 200) \<and>
   can_assign_role expired_db (Some 7) (Some 20) (Some 1) (Some 1) None"
  by (simp add: spec_list_effective_def spec_currently_effective_def can_assign_role_eval
      example_defs)

text \<open>
  C3, amended. Deny by default: an actor with no active row in \<open>executive_assignments\<close>
  (no row of theirs has \<open>is_active = true\<close>) is refused by \<open>can_assign_role\<close>, for every
  target user, role and scope.
\<close>

theorem deny_by_default:
  assumes "\<forall>ea \<in> set (executive_assignments db).
             assigner = Some (ea_user_id ea) \<longrightarrow> ea_is_active ea \<noteq> Some True"
  shows "\<not> can_assign_role db assigner target_user role_id target_chapter target_branch"
  using assms by (auto simp: can_assign_role_iff)

text \<open>
  On the small database: user 10, whose only row has \<open>is_active = false\<close>, and user 12,
  who has no row, are refused; user 11 is not.
\<close>

theorem deny_by_default_witness:
  "\<not> can_assign_role example_db (Some 10) (Some 20) (Some 17) None (Some 100) \<and>
   \<not> can_assign_role example_db (Some 12) (Some 20) (Some 17) None (Some 100) \<and>
   can_assign_role example_db (Some 11) (Some 20) (Some 17) None (Some 100)"
proof -
  have inactive: "\<forall>ea \<in> set (executive_assignments example_db).
      Some 10 = Some (ea_user_id ea) \<longrightarrow> ea_is_active ea \<noteq> Some True"
    by (simp add: example_defs)
  have absent: "\<forall>ea \<in> set (executive_assignments example_db).
      Some 12 = Some (ea_user_id ea) \<longrightarrow> ea_is_active ea \<noteq> Some True"
    by (simp add: example_defs)
  have "can_assign_role example_db (Some 11) (Some 20) (Some 17) None (Some 100)"
    by (simp add: can_assign_role_eval example_defs)
  with deny_by_default [OF inactive] deny_by_default [OF absent] show ?thesis
    by simp
qed

text \<open>
  C4. Super-authority: an actor who holds an active assignment whose role is named
  \<^verbatim>\<open>Chairman\<close> is allowed by \<open>can_assign_role\<close>, whatever the target user, the target
  role and the target chapter and branch are.
\<close>

theorem chairman_super_authority:
  assumes "ea \<in> set (executive_assignments db)" and "ea_is_active ea = Some True"
    and "r \<in> set (roles db)" and "r_id r = ea_role_id ea" and "r_name r = ''Chairman''"
  shows "can_assign_role db (Some (ea_user_id ea)) target_user role_id target_chapter
           target_branch"
  using assms by (auto simp: can_assign_role_iff chairman_rule_def)

text \<open>
  On the small database: user 11 may assign the Chairman role itself, with no target
  scope, and a role that does not exist, in a branch.
\<close>

theorem chairman_super_authority_witness:
  "ea_user_id open_chairmanship = 11 \<and>
   can_assign_role example_db (Some (ea_user_id open_chairmanship)) (Some 20) (Some 1)
     None None \<and>
   can_assign_role example_db (Some (ea_user_id open_chairmanship)) None (Some 999)
     (Some 1) (Some 200)"
proof -
  have a: "open_chairmanship \<in> set (executive_assignments example_db)"
    by (simp add: example_db_def)
  have b: "ea_is_active open_chairmanship = Some True"
    by (simp add: example_defs)
  have c: "chairman \<in> set (roles example_db)"
    by (simp add: example_db_def)
  have d: "r_id chairman = ea_role_id open_chairmanship"
    by (simp add: example_defs)
  have e: "r_name chairman = ''Chairman''"
    by (simp add: example_defs)
  have "ea_user_id open_chairmanship = 11"
    by (simp add: example_defs)
  with chairman_super_authority [OF a b c d e] show ?thesis
    by blast
qed

text \<open>
  C6, as written, fails when "only effective assignment" is the specification's notion.
  In \<open>lapsed_db\<close> at time 100 the only currently effective assignment of user 9 is the
  chairmanship of branch 100, a \<^verbatim>\<open>Branch Chairman\<close> assignment of scope
  \<^verbatim>\<open>branch\<close>. The chapter chairmanship that ended at 50 still has
  \<open>is_active = true\<close>, is loaded, and lets user 9 assign in branch 200 and with no target
  branch.
\<close>

theorem lapsed_chairmanship_crosses_branches:
  "spec_list_effective 100 9 lapsed_db = [branch_chairmanship] \<and>
   ea_branch_id branch_chairmanship = Some 100 \<and>
   role_details_of lapsed_db (Some (ea_role_id branch_chairmanship)) = Some branch_chairman \<and>
   r_name branch_chairman = ''Branch Chairman'' \<and>
   r_scope_type branch_chairman = ''branch'' \<and>
   can_assign_role lapsed_db (Some 9) (Some 20) (Some 17) None (Some 200) \<and>
   can_assign_role lapsed_db (Some 9) (Some 20) (Some 17) None None"
  by (simp add: spec_list_effective_def spec_currently_effective_def can_assign_role_eval
      example_defs)

text \<open>
  C6, amended. Branch scoping: when every active assignment (\<open>is_active = true\<close>) of an
  actor is a \<^verbatim>\<open>Branch Chairman\<close> assignment for branch \<open>B\<close>, \<open>can_assign_role\<close>
  refuses every request whose target branch is not \<open>B\<close>, a null target branch included.
\<close>

theorem branch_chairman_other_branch_denied:
  assumes "\<forall>ea \<in> set (executive_assignments db).
             ea_user_id ea = actor \<and> ea_is_active ea = Some True \<longrightarrow>
               ea_branch_id ea = Some B \<and>
               (\<forall>r \<in> set (roles db). r_id r = ea_role_id ea \<longrightarrow> r_name r = ''Branch Chairman'')"
    and "target_branch \<noteq> Some B"
  shows "\<not> can_assign_role db (Some actor) target_user role_id target_chapter target_branch"
  using assms
  by (auto simp: can_assign_role_iff chairman_rule_def secretary_rule_def
      branch_chairman_rule_def)

text \<open>
  On the small database: user 9, Branch Chairman of branch 100, is refused for branch 200
  and for no branch, and allowed for branch 100.
\<close>

theorem branch_chairman_other_branch_denied_witness:
  "\<not> can_assign_role example_db (Some 9) (Some 20) (Some 17) None (Some 200) \<and>
   \<not> can_assign_role example_db (Some 9) (Some 20) (Some 17) None None \<and>
   can_assign_role example_db (Some 9) (Some 20) (Some 17) None (Some 100)"
proof -
  have only: "\<forall>ea \<in> set (executive_assignments example_db).
      ea_user_id ea = 9 \<and> ea_is_active ea = Some True \<longrightarrow>
        ea_branch_id ea = Some 100 \<and>
        (\<forall>r \<in> set (roles example_db). r_id r = ea_role_id ea \<longrightarrow> r_name r = ''Branch Chairman'')"
    by (simp add: example_defs)
  have other: "Some 200 \<noteq> Some (100::nat)" and null: "None \<noteq> Some (100::nat)"
    by simp_all
  have "can_assign_role example_db (Some 9) (Some 20) (Some 17) None (Some 100)"
    by (simp add: can_assign_role_eval example_defs)
  with branch_chairman_other_branch_denied [OF only other]
    branch_chairman_other_branch_denied [OF only null]
  show ?thesis by simp
qed

text \<open>
  C1, as written, fails: \<open>can_assign_role\<close> tests \<open>is_active\<close> alone. In \<open>expired_db\<close>
  the only assignment is user 7's chairmanship, with \<open>is_active = true\<close> and
  \<open>end_date = 50\<close>. At time 100 it is not currently effective in the specification's
  sense, yet it lets user 7 assign a role; without the row user 7 is refused.
\<close>

theorem expired_assignment_still_grants:
  "executive_assignments expired_db = [expired_chairmanship] \<and>
   ea_is_active expired_chairmanship = Some True \<and>
   ea_end_date expired_chairmanship = Some 50 \<and>
   \<not> spec_currently_effective 100 expired_chairmanship \<and>
   can_assign_role expired_db (Some 7) (Some 20) (Some 17) None (Some 200) \<and>
   \<not> can_assign_role (expired_db\<lparr>executive_assignments := []\<rparr>) (Some 7) (Some 20) (Some 17)
       None (Some 200)"
  by (simp add: spec_currently_effective_def can_assign_role_eval example_defs)

text \<open>
  C1, amended. The decision of \<open>can_assign_role\<close> rests on the assigner's rows with
  \<open>is_active = true\<close> and on nothing else of the ledger: it is unchanged when every
  other row is dropped and the \<open>start_date\<close> and \<open>end_date\<close> of the rows kept are
  replaced by any values at all. So an assignment grants permission only if its
  \<open>is_active\<close> is true, and its dates are never consulted.
\<close>

theorem only_active_rows_are_read:
  "can_assign_role db assigner target_user role_id target_chapter target_branch =
   can_assign_role
     (db\<lparr>executive_assignments :=
        map (\<lambda>ea. ea\<lparr>ea_start_date := s ea, ea_end_date := e ea\<rparr>)
          (filter (\<lambda>ea. Some (ea_user_id ea) = assigner \<and> ea_is_active ea = Some True)
             (executive_assignments db))\<rparr>)
     assigner target_user role_id target_chapter target_branch"
  by (auto simp: can_assign_role_iff role_details_of_def branch_chairman_rule_def)

text \<open>
  C7. Revocation is immediate: in the state after \<open>revoke\<close>, \<open>can_assign_role\<close> answers
  as it would if the revoked assignment were not in the ledger at all, for every assigner
  and every request. The function is applied to the state it is given and keeps nothing
  from an earlier call.
\<close>

theorem revocation_immediate:
  "can_assign_role (revoke now assignment_id db) assigner target_user role_id target_chapter
     target_branch =
   can_assign_role
     (db\<lparr>executive_assignments :=
        filter (\<lambda>ea. ea_id ea \<noteq> assignment_id) (executive_assignments db)\<rparr>)
     assigner target_user role_id target_chapter target_branch"
  by (auto simp: can_assign_role_iff revoke_def role_details_of_def branch_chairman_rule_def)

text \<open>
  On the small database: user 11 is allowed before the open chairmanship (assignment 5) is
  revoked and refused after.
\<close>

theorem revocation_immediate_witness:
  "can_assign_role example_db (Some 11) (Some 20) (Some 17) None (Some 200) \<and>
   \<not> can_assign_role (revoke 70 5 example_db) (Some 11) (Some 20) (Some 17) None (Some 200)"
proof -
  have before: "can_assign_role example_db (Some 11) (Some 20) (Some 17) None (Some 200)"
    by (simp add: can_assign_role_eval example_defs)
  have "\<not> can_assign_role
      (example_db\<lparr>executive_assignments :=
         filter (\<lambda>ea. ea_id ea \<noteq> 5) (executive_assignments example_db)\<rparr>)
      (Some 11) (Some 20) (Some 17) None (Some 200)"
    by (simp add: can_assign_role_eval example_defs)
  then have "\<not> can_assign_role (revoke 70 5 example_db) (Some 11) (Some 20) (Some 17) None
      (Some 200)"
    by (simp only: revocation_immediate simp_thms)
  with before show ?thesis by simp
qed

text \<open>
  C5, as written, fails when "belongs to the committee category" is membership of the
  \<^verbatim>\<open>Committees\<close> category: the test of the source is on the target role's name. User 8
  holds the Secretary role and nothing else. The role \<^verbatim>\<open>Fundraising Lead\<close> is in the
  Committees category and user 8 may not assign it; the role
  \<^verbatim>\<open>Committee Liaison Officer\<close> is a chapter executive and user 8 may assign it.
\<close>

theorem secretary_rule_is_by_name_not_category:
  "role_details_of example_db (Some 50) = Some fundraising_lead \<and>
   spec_in_committee_category example_db fundraising_lead \<and>
   \<not> can_assign_role example_db (Some 8) (Some 20) (Some 50) (Some 1) None \<and>
   role_details_of example_db (Some 51) = Some committee_liaison_officer \<and>
   \<not> spec_in_committee_category example_db committee_liaison_officer \<and>
   can_assign_role example_db (Some 8) (Some 20) (Some 51) (Some 1) None"
  by (simp add: spec_in_committee_category_def can_assign_role_eval example_defs)

text \<open>
  C5, amended. When an actor has at least one active assignment and every active
  assignment of theirs is to a role named \<^verbatim>\<open>Secretary\<close>, \<open>can_assign_role\<close> allows
  exactly when the target role exists and its name contains \<^verbatim>\<open>Committee\<close> (the
  source's \<^verbatim>\<open>LIKE '%Committee%'\<close>), whatever its category is.
\<close>

theorem secretary_assigns_roles_named_committee:
  assumes "\<exists>ea \<in> set (executive_assignments db). \<exists>r \<in> set (roles db).
             ea_user_id ea = actor \<and> ea_is_active ea = Some True \<and> r_id r = ea_role_id ea"
    and "\<forall>ea \<in> set (executive_assignments db).
             ea_user_id ea = actor \<and> ea_is_active ea = Some True \<longrightarrow>
               (\<forall>r \<in> set (roles db). r_id r = ea_role_id ea \<longrightarrow> r_name r = ''Secretary'')"
  shows "can_assign_role db (Some actor) target_user role_id target_chapter target_branch =
           (\<exists>t u v. role_details_of db role_id = Some t \<and> r_name t = u @ ''Committee'' @ v)"
proof -
  let ?details = "role_details_of db role_id"
  let ?named = "\<exists>t. ?details = Some t \<and> like_match ''%Committee%'' (r_name t)"
  have rules: "(chairman_rule r \<or> secretary_rule r ?details \<or>
                branch_chairman_rule r ea ?details target_branch) = ?named"
    if "r_name r = ''Secretary''" for r ea
    using that
    by (auto simp: chairman_rule_def secretary_rule_def branch_chairman_rule_def
        is_true_sql_like)
  have "can_assign_role db (Some actor) target_user role_id target_chapter target_branch =
        ((\<exists>ea \<in> set (executive_assignments db). \<exists>r \<in> set (roles db).
            r_id r = ea_role_id ea \<and> ea_user_id ea = actor \<and> ea_is_active ea = Some True)
         \<and> ?named)"
    unfolding can_assign_role_iff using assms(2) rules by blast
  also have "\<dots> = ?named"
    using assms(1) by blast
  also have "\<dots> = (\<exists>t u v. ?details = Some t \<and> r_name t = u @ ''Committee'' @ v)"
    by (simp add: like_committee)
  finally show ?thesis .
qed

text \<open>
  On the small database: user 8 may assign \<^verbatim>\<open>Finance Committee Chair\<close> and may not
  assign \<^verbatim>\<open>Branch Secretary\<close> or a role that does not exist.
\<close>

theorem secretary_assigns_roles_named_committee_witness:
  "can_assign_role example_db (Some 8) (Some 20) (Some 25) (Some 1) None \<and>
   \<not> can_assign_role example_db (Some 8) (Some 20) (Some 17) None (Some 100) \<and>
   \<not> can_assign_role example_db (Some 8) (Some 20) (Some 999) (Some 1) None"
proof -
  have some: "\<exists>ea \<in> set (executive_assignments example_db). \<exists>r \<in> set (roles example_db).
      ea_user_id ea = 8 \<and> ea_is_active ea = Some True \<and> r_id r = ea_role_id ea"
    by (simp add: example_defs)
  have only: "\<forall>ea \<in> set (executive_assignments example_db).
      ea_user_id ea = 8 \<and> ea_is_active ea = Some True \<longrightarrow>
        (\<forall>r \<in> set (roles example_db). r_id r = ea_role_id ea \<longrightarrow> r_name r = ''Secretary'')"
    by (simp add: example_defs)
  note iff = secretary_assigns_roles_named_committee [OF some only]
  have finance: "role_details_of example_db (Some 25) = Some finance_committee_chair"
    and "r_name finance_committee_chair = ''Finance '' @ ''Committee'' @ '' Chair''"
    by (simp_all add: role_details_of_def select_into_def example_defs)
  then have yes: "can_assign_role example_db (Some 8) (Some 20) (Some 25) (Some 1) None"
    unfolding iff by blast
  have "role_details_of example_db (Some 17) = Some branch_secretary"
    and "\<not> like_match ''%Committee%'' (r_name branch_secretary)"
    by (simp_all add: role_details_of_def select_into_def example_defs)
  then have no: "\<not> can_assign_role example_db (Some 8) (Some 20) (Some 17) None (Some 100)"
    unfolding iff by (simp add: like_committee)
  have "role_details_of example_db (Some 999) = None"
    by (simp add: role_details_of_def select_into_def example_defs)
  then have "\<not> can_assign_role example_db (Some 8) (Some 20) (Some 999) (Some 1) None"
    unfolding iff by simp
  with yes no show ?thesis by simp
qed

section \<open>Properties of validate_role_assignment\<close>

text \<open>
  C2. An assignment row that the schema admits (the primary key of \<open>roles\<close> holds, the
  row's role exists, the row passes the \<open>valid_scope\<close> check) and that
  \<open>validate_role_assignment\<close> accepts has scope fields consistent with its role's
  \<open>scope_type\<close>: a chapter role has \<open>chapter_id\<close> set, a branch role has \<open>branch_id\<close>
  set, a role of scope \<^verbatim>\<open>both\<close> has one of the two set.
\<close>

theorem validated_scope_consistent:
  assumes "roles_pkey db" and "r \<in> set (roles db)" and "r_id r = ea_role_id ea"
    and "valid_scope ea"
    and "validate_role_assignment db (Some (ea_user_id ea)) (Some (ea_role_id ea))
           (ea_chapter_id ea) (ea_branch_id ea) = Inr True"
  shows "(r_scope_type r = ''chapter'' \<longrightarrow> ea_chapter_id ea \<noteq> None) \<and>
         (r_scope_type r = ''branch'' \<longrightarrow> ea_branch_id ea \<noteq> None) \<and>
         (r_scope_type r = ''both'' \<longrightarrow> ea_chapter_id ea \<noteq> None \<or> ea_branch_id ea \<noteq> None)"
proof (cases "select_into (role_with_category_rows db (Some (r_id r)))")
  case None
  with assms(3,5) show ?thesis
    by (simp add: validate_role_assignment_def)
next
  case (Some row)
  obtain x n where row: "row = (x, n)" by (cases row)
  with Some assms(1,2) have "x = r"
    by (auto dest: role_record_is_the_role)
  with Some row assms(3,5) show ?thesis
    by (auto simp: validate_role_assignment_def Let_def split: if_splits)
qed

text \<open>
  On the small database: the branch chairmanship of user 9 passes the check and the
  validation, its role has scope \<^verbatim>\<open>branch\<close>, and its \<open>branch_id\<close> is set.
\<close>

theorem validated_scope_consistent_witness:
  "valid_scope branch_chairmanship \<and>
   validate_role_assignment example_db (Some 9) (Some 16) None (Some 100) = Inr True \<and>
   r_scope_type branch_chairman = ''branch'' \<and>
   ea_branch_id branch_chairmanship \<noteq> None"
proof -
  have b: "branch_chairman \<in> set (roles example_db)"
    by (simp add: example_db_def)
  have c: "r_id branch_chairman = ea_role_id branch_chairmanship"
    by (simp add: example_defs)
  have d: "valid_scope branch_chairmanship"
    by (simp add: valid_scope_def example_defs)
  have v: "validate_role_assignment example_db (Some 9) (Some 16) None (Some 100) = Inr True"
    by (simp add: validate_eval example_defs)
  then have e: "validate_role_assignment example_db (Some (ea_user_id branch_chairmanship))
      (Some (ea_role_id branch_chairmanship)) (ea_chapter_id branch_chairmanship)
      (ea_branch_id branch_chairmanship) = Inr True"
    by (simp add: example_defs)
  have s: "r_scope_type branch_chairman = ''branch''"
    by (simp add: example_defs)
  with validated_scope_consistent [OF example_db_pkey b c d e]
  have "ea_branch_id branch_chairmanship \<noteq> None"
    by blast
  with d v s show ?thesis by blast
qed

text \<open>
  C8. Scope validation failure: for an existing role of scope \<^verbatim>\<open>chapter\<close>,
  \<open>validate_role_assignment\<close> returns false when no \<open>chapter_id\<close> is given, whether a
  \<open>branch_id\<close> is given or not; for a role of scope \<^verbatim>\<open>branch\<close>, when no \<open>branch_id\<close>
  is given; for a role of scope \<^verbatim>\<open>both\<close>, when neither is given.
\<close>

theorem inconsistent_scope_rejected:
  assumes "roles_pkey db" and "r \<in> set (roles db)"
  shows "(r_scope_type r = ''chapter'' \<longrightarrow>
            validate_role_assignment db user (Some (r_id r)) None branch = Inr False) \<and>
         (r_scope_type r = ''branch'' \<longrightarrow>
            validate_role_assignment db user (Some (r_id r)) chapter None = Inr False) \<and>
         (r_scope_type r = ''both'' \<longrightarrow>
            validate_role_assignment db user (Some (r_id r)) None None = Inr False)"
proof (cases "select_into (role_with_category_rows db (Some (r_id r)))")
  case None
  then show ?thesis
    by (simp add: validate_role_assignment_def)
next
  case (Some row)
  obtain x n where row: "row = (x, n)" by (cases row)
  with Some assms have "x = r"
    by (auto dest: role_record_is_the_role)
  with Some row show ?thesis
    by (simp add: validate_role_assignment_def Let_def)
qed

text \<open>
  On the small database: the Chairman role (chapter) with a branch only, the Branch
  Chairman role (branch) with a chapter only and the Electoral Commissioner role (both)
  with neither are rejected; the Chairman role with a chapter is accepted.
\<close>

theorem inconsistent_scope_rejected_witness:
  "validate_role_assignment example_db (Some 30) (Some (r_id chairman)) None (Some 100)
     = Inr False \<and>
   validate_role_assignment example_db (Some 30) (Some (r_id branch_chairman)) (Some 1) None
     = Inr False \<and>
   validate_role_assignment example_db (Some 30) (Some (r_id electoral_commissioner)) None None
     = Inr False \<and>
   validate_role_assignment example_db (Some 30) (Some (r_id chairman)) (Some 1) None
     = Inr True"
proof -
  have c: "chairman \<in> set (roles example_db)" "r_scope_type chairman = ''chapter''"
    and b: "branch_chairman \<in> set (roles example_db)"
      "r_scope_type branch_chairman = ''branch''"
    and e: "electoral_commissioner \<in> set (roles example_db)"
      "r_scope_type electoral_commissioner = ''both''"
    by (simp_all add: example_defs)
  have ok: "validate_role_assignment example_db (Some 30) (Some (r_id chairman)) (Some 1) None
      = Inr True"
    by (simp add: validate_eval example_defs)
  from inconsistent_scope_rejected [OF example_db_pkey c(1)]
    inconsistent_scope_rejected [OF example_db_pkey b(1)]
    inconsistent_scope_rejected [OF example_db_pkey e(1)]
    c(2) b(2) e(2) ok
  show ?thesis by blast
qed

text \<open>
  C10. A role whose \<open>category_id\<close> is null is never validated: the lookup inner-joins
  \<open>role_categories\<close>, finds no row for it, and the function returns false for every
  \<open>chapter_id\<close> and \<open>branch_id\<close>, consistent with the role's scope or not.
\<close>

theorem uncategorised_role_never_validates:
  assumes "roles_pkey db" and "r \<in> set (roles db)" and "r_category_id r = None"
  shows "validate_role_assignment db user (Some (r_id r)) chapter branch = Inr False"
proof (cases "select_into (role_with_category_rows db (Some (r_id r)))")
  case None
  then show ?thesis
    by (simp add: validate_role_assignment_def)
next
  case (Some row)
  obtain x n where row: "row = (x, n)" by (cases row)
  with Some assms(1,2) have "r_category_id r \<noteq> None"
    by (auto dest: role_record_is_the_role)
  with assms(3) show ?thesis by simp
qed

text \<open>
  On the small database: the role \<^verbatim>\<open>Patron\<close> has scope \<^verbatim>\<open>chapter\<close> and no category;
  with a \<open>chapter_id\<close> it is rejected all the same.
\<close>

theorem uncategorised_role_never_validates_witness:
  "r_scope_type patron = ''chapter'' \<and> r_category_id patron = None \<and>
   validate_role_assignment example_db (Some 30) (Some (r_id patron)) (Some 1) None
     = Inr False"
proof -
  have p: "patron \<in> set (roles example_db)"
    by (simp add: example_db_def)
  have s: "r_scope_type patron = ''chapter''" and n: "r_category_id patron = None"
    by (simp_all add: example_defs)
  from uncategorised_role_never_validates [OF example_db_pkey p n] s n
  show ?thesis by blast
qed

end
